theory Spec2Isabelle
  imports Main "HOL-Library.Word" "HOL-Library.Sublist"
begin

unbundle bit_operations_syntax

section \<open>Inventory values\<close>

text \<open>
  A field of a vehicle record of \<open>inventory.json\<close>, as both runtimes read it. \<open>JUndef\<close> is a
  field that is not there (JavaScript reads \<open>undefined\<close>, PowerShell reads \<open>$null\<close>),
  \<open>JNull\<close> is a JSON \<open>null\<close>. Numbers are whole numbers (years, prices, mileages) of a
  size that both runtimes write in plain decimal digits; fractions are not part of this
  model. Characters are code points below 256.
\<close>

datatype jv = JUndef | JNull | JBool bool | JNum int | JStr string

record vehicle =
  vehicleId :: jv
  stockNumber :: jv
  id' :: jv
  vin :: jv
  year :: jv
  make' :: jv
  model :: jv
  trim :: jv
  price :: jv
  mileage :: jv
  dateAdded :: jv
  status :: jv
  type' :: jv
  description :: jv

text \<open>The record \<open>{}\<close>: every field absent.\<close>

definition no_fields :: vehicle where
  "no_fields = \<lparr>vehicleId = JUndef, stockNumber = JUndef, id' = JUndef, vin = JUndef,
     year = JUndef, make' = JUndef, model = JUndef, trim = JUndef, price = JUndef,
     mileage = JUndef, dateAdded = JUndef, status = JUndef, type' = JUndef,
     description = JUndef\<rparr>"

subsection \<open>Decimal and hexadecimal digits\<close>

definition digit_char :: "nat \<Rightarrow> char" where
  "digit_char n = ''0123456789abcdef'' ! n"

fun to_base :: "nat \<Rightarrow> nat \<Rightarrow> string" where
  "to_base b n =
     (if b < 2 \<or> n < b then [digit_char n] else to_base b (n div b) @ [digit_char (n mod b)])"

definition show_int :: "int \<Rightarrow> string" where
  "show_int i = (if i < 0 then CHR ''-'' # to_base 10 (nat (- i)) else to_base 10 (nat i))"

definition padStart :: "nat \<Rightarrow> char \<Rightarrow> string \<Rightarrow> string" where
  "padStart n c s = replicate (n - length s) c @ s"

subsection \<open>Truthiness and string conversion in the two runtimes\<close>

text \<open>
  JavaScript: \<open>undefined\<close>, \<open>null\<close>, \<open>false\<close>, \<open>0\<close> and \<open>""\<close> are falsy.
  PowerShell's \<open>-not\<close> agrees on these values: \<open>$null\<close>, \<open>$false\<close>, \<open>0\<close> and the empty
  string are false, every other string is true.
\<close>

fun truthy :: "jv \<Rightarrow> bool" where
  "truthy JUndef = False"
| "truthy JNull = False"
| "truthy (JBool b) = b"
| "truthy (JNum n) = (n \<noteq> 0)"
| "truthy (JStr s) = (s \<noteq> [])"

text \<open>JavaScript \<open>a || b\<close> and \<open>String(x)\<close>.\<close>

definition js_or :: "jv \<Rightarrow> jv \<Rightarrow> jv" where
  "js_or a b = (if truthy a then a else b)"

fun js_String :: "jv \<Rightarrow> string" where
  "js_String JUndef = ''undefined''"
| "js_String JNull = ''null''"
| "js_String (JBool b) = (if b then ''true'' else ''false'')"
| "js_String (JNum n) = show_int n"
| "js_String (JStr s) = s"

text \<open>
  PowerShell \<open>.ToString()\<close> and the conversion of an element by \<open>-join\<close> and by string
  interpolation; \<open>$null\<close> converts to the empty string.
\<close>

fun ps_String :: "jv \<Rightarrow> string" where
  "ps_String JUndef = []"
| "ps_String JNull = []"
| "ps_String (JBool b) = (if b then ''True'' else ''False'')"
| "ps_String (JNum n) = show_int n"
| "ps_String (JStr s) = s"

fun join :: "string \<Rightarrow> string list \<Rightarrow> string" where
  "join sep [] = []"
| "join sep [x] = x"
| "join sep (x # y # ys) = x @ sep @ join sep (y # ys)"

subsection \<open>Character classes and the regular-expression replacements\<close>

definition is_alnum :: "char \<Rightarrow> bool" where
  "is_alnum c = (let n = (of_char c :: nat) in
     (48 \<le> n \<and> n \<le> 57) \<or> (65 \<le> n \<and> n \<le> 90) \<or> (97 \<le> n \<and> n \<le> 122))"

text \<open>\<open>replace(/[^a-z0-9]/gi, '')\<close> and \<open>-replace '[^a-zA-Z0-9]',''\<close>.\<close>

definition strip_non_alnum :: "string \<Rightarrow> string" where
  "strip_non_alnum s = filter is_alnum s"

text \<open>
  \<open>replace(/[^a-z0-9]+/gi, '-')\<close> and \<open>-replace '[^a-zA-Z0-9]+','-'\<close>: every maximal run
  of other characters becomes one hyphen.
\<close>

function hyphenate :: "string \<Rightarrow> string" where
  "hyphenate [] = []"
| "hyphenate (c # cs) =
     (if is_alnum c then c # hyphenate cs
      else CHR ''-'' # hyphenate (dropWhile (\<lambda>d. \<not> is_alnum d) cs))"
  by pat_completeness auto
termination
  by (relation "measure length") (auto simp: length_dropWhile_le less_Suc_eq_le)

definition trim_both :: "(char \<Rightarrow> bool) \<Rightarrow> string \<Rightarrow> string" where
  "trim_both P s = rev (dropWhile P (rev (dropWhile P s)))"

text \<open>White space of \<open>String.prototype.trim\<close> and of .NET \<open>String.Trim()\<close>, below 256.\<close>

definition js_space :: "char \<Rightarrow> bool" where
  "js_space c = (let n = (of_char c :: nat) in (9 \<le> n \<and> n \<le> 13) \<or> n = 32 \<or> n = 160)"

definition ps_space :: "char \<Rightarrow> bool" where
  "ps_space c = (let n = (of_char c :: nat) in
     (9 \<le> n \<and> n \<le> 13) \<or> n = 32 \<or> n = 133 \<or> n = 160)"

section \<open>SHA-1 of \<open>assets/js/utils.js\<close>\<close>

type_synonym u32 = "32 word"
type_synonym sha_state = "u32 \<times> u32 \<times> u32 \<times> u32 \<times> u32"

definition rotl :: "u32 \<Rightarrow> nat \<Rightarrow> u32" where
  "rotl n s = push_bit s n OR drop_bit (32 - s) n"

definition toHex :: "u32 \<Rightarrow> string" where
  "toHex i = padStart 8 CHR ''0'' (to_base 16 (unat i))"

text \<open>\<open>unescape(encodeURIComponent(msg))\<close>: the UTF-8 bytes of the message.\<close>

definition utf8 :: "string \<Rightarrow> 8 word list" where
  "utf8 s = concat (map (\<lambda>c. let n = (of_char c :: nat) in
     if n < 128 then [of_nat n] else [of_nat (192 + n div 64), of_nat (128 + n mod 64)]) s)"

text \<open>
  The first loop: \<open>words[i >> 2] |= msg.charCodeAt(i) << (24 - (i % 4) * 8)\<close>. The array
  starts with all the entries it will ever have, each 0 (an entry never written reads as
  0 through \<open>| 0\<close>).
\<close>

fun pack :: "8 word list \<Rightarrow> nat \<Rightarrow> u32 list \<Rightarrow> u32 list" where
  "pack [] i words = words"
| "pack (b # bs) i words =
     pack bs (Suc i) (words[i div 4 := words ! (i div 4) OR push_bit (24 - (i mod 4) * 8) (ucast b)])"

definition sha1_words :: "8 word list \<Rightarrow> u32 list" where
  "sha1_words msg =
     (let ml = length msg * 8;
          last_i = ((ml + 64) div 512) * 16 + 15;
          w0 = pack msg 0 (replicate (Suc last_i) 0);
          w1 = w0[ml div 32 := w0 ! (ml div 32) OR push_bit (24 - ml mod 32) 0x80]
      in w1[last_i := of_nat ml])"

text \<open>
  \<open>w[t] = rotl(w[t-3] ^ w[t-8] ^ w[t-14] ^ w[t-16], 1)\<close> for \<open>t\<close> from 16 to 79; the
  next \<open>t\<close> is the number of entries already there.
\<close>

fun schedule :: "nat \<Rightarrow> u32 list \<Rightarrow> u32 list" where
  "schedule 0 w = w"
| "schedule (Suc k) w =
     schedule k (w @ [rotl (w ! (length w - 3) XOR w ! (length w - 8) XOR
                            w ! (length w - 14) XOR w ! (length w - 16)) 1])"

definition round_f :: "nat \<Rightarrow> u32 \<Rightarrow> u32 \<Rightarrow> u32 \<Rightarrow> u32" where
  "round_f t b c d =
     (if t < 20 then (b AND c) OR (NOT b AND d)
      else if t < 40 then b XOR c XOR d
      else if t < 60 then (b AND c) OR (b AND d) OR (c AND d)
      else b XOR c XOR d)"

definition round_k :: "nat \<Rightarrow> u32" where
  "round_k t =
     (if t < 20 then 0x5A827999
      else if t < 40 then 0x6ED9EBA1
      else if t < 60 then 0x8F1BBCDC
      else 0xCA62C1D6)"

fun rounds :: "u32 list \<Rightarrow> nat \<Rightarrow> sha_state \<Rightarrow> sha_state" where
  "rounds [] t s = s"
| "rounds (wt # ws) t (a, b, c, d, e) =
     rounds ws (Suc t) (rotl a 5 + round_f t b c d + e + round_k t + wt, a, rotl b 30, c, d)"

definition block :: "u32 list \<Rightarrow> sha_state \<Rightarrow> sha_state" where
  "block w16 h =
     (case h of (h0, h1, h2, h3, h4) \<Rightarrow>
        (case rounds (schedule 64 w16) 0 h of (a, b, c, d, e) \<Rightarrow>
           (h0 + a, h1 + b, h2 + c, h3 + d, h4 + e)))"

function blocks :: "u32 list \<Rightarrow> sha_state \<Rightarrow> sha_state" where
  "blocks words h = (if words = [] then h else blocks (drop 16 words) (block (take 16 words) h))"
  by pat_completeness auto
termination
  by (relation "measure (\<lambda>(words, h). length words)") auto

definition sha1_state :: "8 word list \<Rightarrow> sha_state" where
  "sha1_state msg =
     blocks (sha1_words msg) (0x67452301, 0xEFCDAB89, 0x98BADCFE, 0x10325476, 0xC3D2E1F0)"

definition sha1Hex :: "string \<Rightarrow> string" where
  "sha1Hex msg =
     (case sha1_state (utf8 msg) of (h0, h1, h2, h3, h4) \<Rightarrow>
        toHex h0 @ toHex h1 @ toHex h2 @ toHex h3 @ toHex h4)"

section \<open>The client loader, \<open>inventory-loader.js\<close>\<close>

subsection \<open>\<open>vehicleId(v)\<close> and \<open>buildVDPUrl(v)\<close>\<close>

text \<open>
  The fallback seed:
  \<open>v.vin || [v.year, ..., v.dateAdded].filter(Boolean).join('|') || 'NA'\<close>, then
  \<open>String(seed)\<close>.
\<close>

definition seed_js :: "vehicle \<Rightarrow> string" where
  "seed_js v =
     js_String (js_or (js_or (vin v)
       (JStr (join ''|'' (map js_String (filter truthy
          [year v, make' v, model v, trim v, price v, mileage v, dateAdded v])))))
       (JStr ''NA''))"

definition vehicleId_js :: "vehicle \<Rightarrow> string" where
  "vehicleId_js v =
     (let raw = js_or (js_or (vehicleId v) (stockNumber v)) (id' v)
      in if truthy raw then strip_non_alnum (js_String raw)
         else CHR ''v'' # take 10 (sha1Hex (seed_js v)))"

text \<open>
  One element of \<open>parts\<close>:
  \<open>String(p).trim().replace(/[^a-z0-9]+/gi, '-').replace(/^-+|-+$/g, '')\<close>.
\<close>

definition slug_part_js :: "jv \<Rightarrow> string" where
  "slug_part_js p =
     trim_both (\<lambda>c. c = CHR ''-'') (hyphenate (trim_both js_space (js_String p)))"

definition slug_js :: "vehicle \<Rightarrow> string" where
  "slug_js v =
     join ''-'' (filter (\<lambda>s. s \<noteq> [])
       (map slug_part_js (filter truthy
          [JStr ''Used'', year v, make' v, model v, trim v,
           JStr ''for-sale-in-Greenville-NC-27858''])))"


section \<open>The page generator, \<open>generate-vdp-pages.ps1\<close>\<close>

record config =
  SiteUrl :: string
  City :: string
  State :: string
  Zip :: string

text \<open>The defaults of the \<open>Param\<close> block.\<close>

definition default_config :: config where
  "default_config = \<lparr>SiteUrl = ''https://bellsforkautoandtruck.com'', City = ''Greenville'',
     State = ''NC'', Zip = ''27858''\<rparr>"

subsection \<open>\<open>Slug-Id\<close>\<close>

text \<open>
  \<open>$seed = $v.vin\<close>; when that is false, the seven fields joined by \<open>-join '|'\<close>, which
  converts every element, also \<open>$null\<close>, and keeps its place; then \<open>"NA"\<close> when the
  joined string is false.
\<close>

definition seed_ps :: "vehicle \<Rightarrow> string" where
  "seed_ps v =
     (if truthy (vin v) then ps_String (vin v)
      else let joined = join ''|'' (map ps_String
                 [year v, make' v, model v, trim v, price v, mileage v, dateAdded v])
           in if joined \<noteq> [] then joined else ''NA'')"

text \<open>
  \<open>SHA1.ComputeHash\<close> of the .NET library is the SHA-1 function that \<open>utils.js\<close>
  implements; its result is the 20 bytes of the five state words, most significant byte
  first. \<open>ToString("x2")\<close> writes one byte as two lower-case hexadecimal digits.
\<close>

definition word_bytes :: "u32 \<Rightarrow> 8 word list" where
  "word_bytes w = [ucast (drop_bit 24 w), ucast (drop_bit 16 w), ucast (drop_bit 8 w), ucast w]"

definition ComputeHash :: "8 word list \<Rightarrow> 8 word list" where
  "ComputeHash bytes =
     (case sha1_state bytes of (h0, h1, h2, h3, h4) \<Rightarrow>
        concat (map word_bytes [h0, h1, h2, h3, h4]))"

definition x2 :: "8 word \<Rightarrow> string" where
  "x2 b = padStart 2 CHR ''0'' (to_base 16 (unat b))"

definition Slug_Id :: "vehicle \<Rightarrow> string" where
  "Slug_Id v =
     (let raw0 = vehicleId v;
          raw1 = (if \<not> truthy raw0 then stockNumber v else raw0);
          raw2 = (if \<not> truthy raw1 then id' v else raw1)
      in if \<not> truthy raw2
         then strip_non_alnum
                (CHR ''v'' # take 10 (concat (map x2 (ComputeHash (utf8 (seed_ps v))))))
         else strip_non_alnum (ps_String raw2))"

subsection \<open>\<open>Slug-Part\<close>, \<open>Slug-Tail\<close> and the page path\<close>

definition Slug_Part :: "jv \<Rightarrow> string option" where
  "Slug_Part p =
     (if p = JUndef \<or> p = JNull then None
      else if trim_both ps_space (ps_String p) = [] then None
      else if trim_both (\<lambda>c. c = CHR ''-'') (hyphenate (trim_both ps_space (ps_String p))) = []
           then None
      else Some (trim_both (\<lambda>c. c = CHR ''-'') (hyphenate (trim_both ps_space (ps_String p)))))"

definition Slug_Tail :: "config \<Rightarrow> vehicle \<Rightarrow> string" where
  "Slug_Tail cfg v =
     join ''-'' (List.map_filter Slug_Part
       [JStr ''Used'', year v, make' v, model v, trim v,
        JStr (''for-sale-in-'' @ City cfg @ ''-'' @ State cfg @ ''-'' @ Zip cfg)])"

definition TrimEnd :: "char \<Rightarrow> string \<Rightarrow> string" where
  "TrimEnd c s = rev (dropWhile (\<lambda>x. x = c) (rev s))"

definition relDir :: "config \<Rightarrow> vehicle \<Rightarrow> string" where
  "relDir cfg v = ''vdp/'' @ Slug_Id v @ ''/'' @ Slug_Tail cfg v"

definition pageUrl :: "config \<Rightarrow> vehicle \<Rightarrow> string" where
  "pageUrl cfg v = TrimEnd CHR ''/'' (SiteUrl cfg) @ ''/'' @ relDir cfg v @ ''/''"

subsection \<open>Price and mileage text\<close>





text \<open>
  A conversion for examples: whole numbers convert to themselves, a string of decimal digits
  to its value, any other string throws.
\<close>

definition is_digit :: "char \<Rightarrow> bool" where
  "is_digit c = (let n = (of_char c :: nat) in 48 \<le> n \<and> n \<le> 57)"

definition digits_value :: "string \<Rightarrow> int" where
  "digits_value s = foldl (\<lambda>n c. 10 * n + (int (of_char c) - 48)) 0 s"


subsection \<open>The main loop\<close>





subsection \<open>\<open>Update-Sitemap\<close>\<close>

text \<open>
  The operator \<open>-like\<close> matches a whole string against a wildcard pattern, ignoring case.
  In a pattern \<open>*\<close> stands for any characters, \<open>?\<close> for one character and a backtick
  escapes the next character; a backslash is an ordinary character. (Bracket ranges are
  left out, the script's pattern has none.)
\<close>

datatype wild = Star | AnyOne | Lit char

fun wild_parse :: "string \<Rightarrow> wild list" where
  "wild_parse [] = []"
| "wild_parse (c # cs) =
     (if c = CHR ''*'' then Star # wild_parse cs
      else if c = CHR ''?'' then AnyOne # wild_parse cs
      else if c = CHR 0x60 then (case cs of [] \<Rightarrow> [Lit c] | d # ds \<Rightarrow> Lit d # wild_parse ds)
      else Lit c # wild_parse cs)"

definition toLower_char :: "char \<Rightarrow> char" where
  "toLower_char c = (let n = (of_char c :: nat) in
     if (65 \<le> n \<and> n \<le> 90) \<or> (192 \<le> n \<and> n \<le> 222 \<and> n \<noteq> 215) then char_of (n + 32) else c)"

fun wild_match :: "wild list \<Rightarrow> string \<Rightarrow> bool" where
  "wild_match [] s = (s = [])"
| "wild_match (Star # ps) [] = wild_match ps []"
| "wild_match (Star # ps) (c # cs) = (wild_match ps (c # cs) \<or> wild_match (Star # ps) cs)"
| "wild_match (AnyOne # ps) [] = False"
| "wild_match (AnyOne # ps) (c # cs) = wild_match ps cs"
| "wild_match (Lit d # ps) [] = False"
| "wild_match (Lit d # ps) (c # cs) = (toLower_char c = toLower_char d \<and> wild_match ps cs)"

definition like :: "string \<Rightarrow> string \<Rightarrow> bool" where
  "like s pattern = wild_match (wild_parse pattern) s"

text \<open>The pattern of the script, \<open>"*\/vdp\/*"\<close>: star, backslash, slash, vdp, backslash, slash, star.\<close>

definition vdp_pattern :: string where
  "vdp_pattern = [CHR ''*'', CHR 0x5C, CHR ''/'', CHR ''v'', CHR ''d'', CHR ''p'', CHR 0x5C,
     CHR ''/'', CHR ''*'']"

text \<open>
  A \<open>url\<close> element of the sitemap with the text of its children; \<open>loc\<close> is \<open>None\<close> when
  the element has no \<open>loc\<close> child.
\<close>

record url_node =
  loc :: "string option"
  lastmod :: "string option"
  changefreq :: "string option"
  priority :: "string option"

definition is_old_vdp :: "url_node \<Rightarrow> bool" where
  "is_old_vdp u = (case loc u of None \<Rightarrow> False | Some text \<Rightarrow> like text vdp_pattern)"

definition new_node :: "string \<Rightarrow> string \<Rightarrow> url_node" where
  "new_node today u =
     \<lparr>loc = Some u, lastmod = Some today, changefreq = Some ''weekly'', priority = Some ''0.6''\<rparr>"

text \<open>
  The sitemap file: not there (the function returns at once), not parsable (the
  \<open>catch\<close> prints a warning), or a document with its \<open>url\<close> elements in order.
\<close>

datatype sitemap = NoFile | Unparsable | Doc "url_node list"

definition Update_Sitemap :: "string \<Rightarrow> string list \<Rightarrow> sitemap \<Rightarrow> sitemap" where
  "Update_Sitemap today VdpUrls file =
     (case file of
        Doc urls \<Rightarrow> Doc (filter (\<lambda>u. \<not> is_old_vdp u) urls @ map (new_node today) VdpUrls)
      | _ \<Rightarrow> file)"

text \<open>One run of the script on a vehicle list, as far as the sitemap goes.\<close>

definition run_sitemap :: "config \<Rightarrow> string \<Rightarrow> vehicle list \<Rightarrow> sitemap \<Rightarrow> sitemap" where
  "run_sitemap cfg today vehicles file = Update_Sitemap today (map (pageUrl cfg) vehicles) file"

fun entry_count :: "sitemap \<Rightarrow> nat" where
  "entry_count (Doc urls) = length urls"
| "entry_count _ = 0"

section \<open>The client renderer, \<open>inventory-loader.js\<close>\<close>

subsection \<open>\<open>getMostRecent(vehicles)\<close>\<close>

text \<open>\<open>v.status === 'available' || !v.status\<close>, in \<open>getMostRecent\<close> and in \<open>filterVehicles\<close>.\<close>

definition available :: "vehicle \<Rightarrow> bool" where
  "available v = (status v = JStr ''available'' \<or> \<not> truthy (status v))"

text \<open>
  \<open>new Date(x)\<close> as its time value, \<open>None\<close> for an invalid date. How a string is read
  belongs to the JavaScript runtime: it is the parameter \<open>parse\<close>.
\<close>

definition new_Date :: "(string \<Rightarrow> int option) \<Rightarrow> jv \<Rightarrow> int option" where
  "new_Date parse x =
     (case x of
        JStr s \<Rightarrow> parse s
      | JNum n \<Rightarrow> if \<bar>n\<bar> \<le> 8640000000000000 then Some n else None
      | JBool b \<Rightarrow> Some (if b then 1 else 0)
      | JNull \<Rightarrow> Some 0
      | JUndef \<Rightarrow> None)"

definition date_of :: "(string \<Rightarrow> int option) \<Rightarrow> vehicle \<Rightarrow> int option" where
  "date_of parse v = (if truthy (dateAdded v) then new_Date parse (dateAdded v) else Some 0)"

text \<open>The comparison function, \<open>dateB - dateA\<close>; \<open>None\<close> is \<open>NaN\<close>.\<close>

definition by_date_desc :: "(string \<Rightarrow> int option) \<Rightarrow> vehicle \<Rightarrow> vehicle \<Rightarrow> int option" where
  "by_date_desc parse a b =
     (case date_of parse b of
        None \<Rightarrow> None
      | Some tb \<Rightarrow> (case date_of parse a of None \<Rightarrow> None | Some ta \<Rightarrow> Some (tb - ta)))"

text \<open>
  \<open>Array.prototype.sort\<close> is stable and puts \<open>a\<close> behind \<open>b\<close> when the comparison
  function returns a positive number; \<open>NaN\<close> counts as 0. Here it is a stable insertion
  sort.
\<close>

fun insert_sorted :: "('a \<Rightarrow> 'a \<Rightarrow> int option) \<Rightarrow> 'a \<Rightarrow> 'a list \<Rightarrow> 'a list" where
  "insert_sorted cmp x [] = [x]"
| "insert_sorted cmp x (y # ys) =
     (if (case cmp x y of None \<Rightarrow> False | Some d \<Rightarrow> 0 < d) then y # insert_sorted cmp x ys
      else x # y # ys)"

definition js_sort :: "('a \<Rightarrow> 'a \<Rightarrow> int option) \<Rightarrow> 'a list \<Rightarrow> 'a list" where
  "js_sort cmp xs = foldr (insert_sorted cmp) xs []"

text \<open>\<open>xs.slice(0, n)\<close>; a negative \<open>n\<close> counts from the end.\<close>

definition slice0 :: "int \<Rightarrow> 'a list \<Rightarrow> 'a list" where
  "slice0 n xs = (if n < 0 then take (nat (int (length xs) + n)) xs else take (nat n) xs)"

text \<open>\<open>this.limit\<close> is the result of \<open>parseInt\<close>: \<open>None\<close> is \<open>NaN\<close>.\<close>

definition getMostRecent ::
  "(string \<Rightarrow> int option) \<Rightarrow> int option \<Rightarrow> vehicle list \<Rightarrow> vehicle list" where
  "getMostRecent parse limit vehicles =
     (case limit of
        None \<Rightarrow> js_sort (by_date_desc parse) (filter available vehicles)
      | Some n \<Rightarrow> slice0 n (js_sort (by_date_desc parse) (filter available vehicles)))"

subsection \<open>\<open>getPriceRange(price)\<close> and \<open>filterVehicles(searchQuery, type, priceRange)\<close>\<close>

text \<open>
  \<open>price < 10000\<close> converts \<open>price\<close> to a number first. The conversion of a string
  belongs to the JavaScript runtime: it is the parameter \<open>num\<close>, with \<open>None\<close> for \<open>NaN\<close>.
  A comparison with \<open>NaN\<close> is false.
\<close>

definition ToNumber :: "(string \<Rightarrow> int option) \<Rightarrow> jv \<Rightarrow> int option" where
  "ToNumber num x =
     (case x of
        JUndef \<Rightarrow> None
      | JNull \<Rightarrow> Some 0
      | JBool b \<Rightarrow> Some (if b then 1 else 0)
      | JNum n \<Rightarrow> Some n
      | JStr s \<Rightarrow> num s)"

definition js_less :: "(string \<Rightarrow> int option) \<Rightarrow> jv \<Rightarrow> int \<Rightarrow> bool" where
  "js_less num x n = (case ToNumber num x of None \<Rightarrow> False | Some m \<Rightarrow> m < n)"

definition getPriceRange :: "(string \<Rightarrow> int option) \<Rightarrow> jv \<Rightarrow> string" where
  "getPriceRange num p =
     (if js_less num p 10000 then ''under10''
      else if js_less num p 20000 then ''10to20''
      else if js_less num p 30000 then ''20to30''
      else ''over30'')"

text \<open>
  A conversion for examples: a string of decimal digits has its value, the empty string is
  0, any other string is \<open>NaN\<close>.
\<close>

definition digits_num :: "string \<Rightarrow> int option" where
  "digits_num s = (if list_all is_digit s then Some (digits_value s) else None)"

definition toLowerCase :: "string \<Rightarrow> string" where
  "toLowerCase s = map toLower_char s"

text \<open>
  The text that is searched:
  \<open>`${v.year} ${v.make} ${v.model} ${v.trim || ''} ${v.description || ''}`\<close>.
\<close>

definition search_text :: "vehicle \<Rightarrow> string" where
  "search_text v =
     js_String (year v) @ '' '' @ js_String (make' v) @ '' '' @ js_String (model v) @ '' '' @
     js_String (js_or (trim v) (JStr [])) @ '' '' @ js_String (js_or (description v) (JStr []))"

definition searchMatch :: "string \<Rightarrow> vehicle \<Rightarrow> bool" where
  "searchMatch searchQuery v =
     (searchQuery = [] \<or> sublist (toLowerCase searchQuery) (toLowerCase (search_text v)))"

definition typeMatch :: "string \<Rightarrow> vehicle \<Rightarrow> bool" where
  "typeMatch type v = (type = ''all'' \<or> type' v = JStr type)"

definition priceMatch :: "(string \<Rightarrow> int option) \<Rightarrow> string \<Rightarrow> vehicle \<Rightarrow> bool" where
  "priceMatch num priceRange v =
     (priceRange = ''all'' \<or> getPriceRange num (price v) = priceRange)"

text \<open>The list that \<open>filterVehicles\<close> hands to \<open>renderVehicles\<close>; \<open>vehicles\<close> is \<open>this.vehicles\<close>.\<close>

definition filterVehicles ::
  "(string \<Rightarrow> int option) \<Rightarrow> vehicle list \<Rightarrow> string \<Rightarrow> string \<Rightarrow> string \<Rightarrow> vehicle list" where
  "filterVehicles num vehicles searchQuery type priceRange =
     filter (\<lambda>v. searchMatch searchQuery v \<and> typeMatch type v \<and>
                 priceMatch num priceRange v \<and> available v) vehicles"

text \<open>The same record with \<open>status: "available"\<close> written out where the status is false.\<close>

definition as_available :: "vehicle \<Rightarrow> vehicle" where
  "as_available v = (if truthy (status v) then v else v\<lparr>status := JStr ''available''\<rparr>)"

section \<open>Example records\<close>

text \<open>The vehicle of the end-to-end example.\<close>

definition f150 :: vehicle where
  "f150 = no_fields\<lparr>year := JNum 2020, make' := JStr ''Ford'', model := JStr ''F-150'',
     trim := JStr ''XLT'', price := JNum 28500, mileage := JNum 45000,
     vin := JStr ''1FTEW1EP0LKE12345'', stockNumber := JStr ''A1234''\<rparr>"

section \<open>Evaluation rules\<close>

declare blocks.simps [simp del] to_base.simps [simp del]

text \<open>Facts that let the simplifier compute with characters, digits and strings.\<close>

lemmas char_eval = is_alnum_def js_space_def ps_space_def is_digit_def toLower_char_def
  char_of_def bit_0

lemmas text_eval = strip_non_alnum_def trim_both_def show_int_def to_base.simps digit_char_def
  js_or_def

subsection \<open>SHA-1 step by step\<close>

text \<open>
  One rule for each loop of \<open>sha1Hex\<close>, applied to numerals. The state words are written
  back as numerals below \<open>2 ^ 32\<close> after every round, so that they stay short.
\<close>

lemma schedule_numeral:
  "schedule (numeral n) w =
     schedule (pred_numeral n)
       (w @ [rotl (w ! (length w - 3) XOR w ! (length w - 8) XOR
                   w ! (length w - 14) XOR w ! (length w - 16)) 1])"
  by (simp add: numeral_eq_Suc)

lemma rounds_step:
  "rounds (wt # ws) t (a, b, c, d, e) =
     rounds ws (t + 1)
       (of_nat (unat (rotl a 5 + round_f t b c d + e + round_k t + wt)), a,
        of_nat (unat (rotl b 30)), c, d)"
  by simp

lemma replicate_numeral: "replicate (numeral k) x = x # replicate (pred_numeral k) x"
  by (simp add: numeral_eq_Suc)

lemma blocks_Nil: "blocks [] h = h"
  by (simp add: blocks.simps)

lemma blocks_Cons: "blocks (w # ws) h = blocks (drop 16 (w # ws)) (block (take 16 (w # ws)) h)"
  by (subst blocks.simps) simp

lemma block_step:
  "block w16 (h0, h1, h2, h3, h4) =
     (case rounds (schedule 64 w16) 0 (h0, h1, h2, h3, h4) of (a, b, c, d, e) \<Rightarrow>
        (of_nat (unat (h0 + a)), of_nat (unat (h1 + b)), of_nat (unat (h2 + c)),
         of_nat (unat (h3 + d)), of_nat (unat (h4 + e))))"
  by (simp add: block_def)

lemmas sha_eval = rotl_def schedule_numeral rounds_step round_f_def round_k_def sha1_state_def
  sha1_words_def utf8_def block_step Let_def replicate_numeral blocks_Nil blocks_Cons

lemmas hex_eval = toHex_def x2_def word_bytes_def padStart_def digit_char_def to_base.simps

lemma sha1Hex_of_state:
  "sha1_state (utf8 msg) = (h0, h1, h2, h3, h4) \<Longrightarrow>
   sha1Hex msg = toHex h0 @ toHex h1 @ toHex h2 @ toHex h3 @ toHex h4"
  by (simp add: sha1Hex_def)

lemma ComputeHash_of_state:
  "sha1_state bytes = (h0, h1, h2, h3, h4) \<Longrightarrow>
   ComputeHash bytes = concat (map word_bytes [h0, h1, h2, h3, h4])"
  by (simp add: ComputeHash_def)

lemma state_NA:
  "sha1_state (utf8 ''NA'') = (0x3feda015, 0x3eee1380, 0xb4962984, 0x50dc5a74, 0x324eb8c1)"
  supply rounds.simps(2) [simp del]
  by (simp add: sha_eval)

lemma state_bars:
  "sha1_state (utf8 ''||||||'') = (0x34bd7295, 0x96bd134e, 0x9c86e104, 0x3e14a79d, 0x148dcfeb)"
  supply rounds.simps(2) [simp del]
  by (simp add: sha_eval)

lemma sha1Hex_NA: "sha1Hex ''NA'' = ''3feda0153eee1380b496298450dc5a74324eb8c1''"
  using sha1Hex_of_state [OF state_NA] by (simp add: hex_eval)

lemma hash_bars: "take 10 (concat (map x2 (ComputeHash (utf8 ''||||||'')))) = ''34bd729596''"
  using ComputeHash_of_state [OF state_bars] by (simp add: hex_eval)

lemma state_2020_Ford:
  "sha1_state (utf8 ''2020|Ford'') =
     (0xf4f5766f, 0x552864c8, 0xa3d2393d, 0x028a1aeb, 0xa13b6a43)"
  supply rounds.simps(2) [simp del]
  by (simp add: sha_eval)

lemma state_2020_Ford_bars:
  "sha1_state (utf8 ''2020|Ford|||||'') =
     (0xa08a97dd, 0x584df8c8, 0x6b3e7d20, 0x812d362b, 0xc37f1d09)"
  supply rounds.simps(2) [simp del]
  by (simp add: sha_eval)

lemma sha1Hex_2020_Ford: "take 10 (sha1Hex ''2020|Ford'') = ''f4f5766f55''"
  using sha1Hex_of_state [OF state_2020_Ford] by (simp add: hex_eval)

lemma hash_2020_Ford_bars:
  "take 10 (concat (map x2 (ComputeHash (utf8 ''2020|Ford|||||'')))) = ''a08a97dd58''"
  using ComputeHash_of_state [OF state_2020_Ford_bars] by (simp add: hex_eval)

subsection \<open>The example records\<close>

lemma seed_js_no_fields: "seed_js no_fields = ''NA''"
  by (simp add: seed_js_def no_fields_def js_or_def)

lemma seed_ps_no_fields: "seed_ps no_fields = ''||||||''"
  by (simp add: seed_ps_def no_fields_def)

lemma vehicleId_js_no_fields: "vehicleId_js no_fields = ''v3feda0153e''"
proof -
  have "vehicleId_js no_fields = CHR ''v'' # take 10 (sha1Hex (seed_js no_fields))"
    by (simp add: vehicleId_js_def no_fields_def js_or_def)
  then show ?thesis by (simp add: seed_js_no_fields sha1Hex_NA)
qed

lemma Slug_Id_no_fields: "Slug_Id no_fields = ''v34bd729596''"
proof -
  have "Slug_Id no_fields =
      strip_non_alnum (CHR ''v'' # take 10 (concat (map x2 (ComputeHash (utf8 (seed_ps no_fields))))))"
    by (simp add: Slug_Id_def no_fields_def)
  then show ?thesis by (simp add: seed_ps_no_fields hash_bars strip_non_alnum_def char_eval)
qed

text \<open>The end-to-end example: identifier \<open>A1234\<close> and the slug, in both implementations.\<close>

lemma Slug_Id_f150: "Slug_Id f150 = ''A1234''"
  by (simp add: Slug_Id_def f150_def no_fields_def char_eval text_eval)

lemma Slug_Tail_f150:
  "Slug_Tail default_config f150 = ''Used-2020-Ford-F-150-XLT-for-sale-in-Greenville-NC-27858''"
  by (simp add: Slug_Tail_def Slug_Part_def List.map_filter_def f150_def no_fields_def
      default_config_def char_eval text_eval)

lemma slug_js_f150:
  "slug_js f150 = ''Used-2020-Ford-F-150-XLT-for-sale-in-Greenville-NC-27858''"
  by (simp add: slug_js_def slug_part_js_def f150_def no_fields_def char_eval text_eval)

section \<open>The slug\<close>

text \<open>
  C9. Slug construction reads the year, make, model and trim of a vehicle and the locality,
  and no identity field: changing \<open>vin\<close>, \<open>vehicleId\<close>, \<open>stockNumber\<close> and \<open>id\<close> of a
  record in any way leaves the slug of the generator and the slug of the client loader as
  they were. Both slugs are the slugs of the record that has only the four descriptive
  fields.
\<close>

theorem slug_ignores_identity_fields:
  "Slug_Tail cfg (v\<lparr>vin := a, vehicleId := b, stockNumber := c, id' := d\<rparr>) = Slug_Tail cfg v \<and>
   slug_js (v\<lparr>vin := a, vehicleId := b, stockNumber := c, id' := d\<rparr>) = slug_js v \<and>
   Slug_Tail cfg v =
     Slug_Tail cfg (no_fields\<lparr>year := year v, make' := make' v, model := model v, trim := trim v\<rparr>) \<and>
   slug_js v =
     slug_js (no_fields\<lparr>year := year v, make' := make' v, model := model v, trim := trim v\<rparr>)"
  by (simp add: Slug_Tail_def slug_js_def)

theorem slug_ignores_identity_fields_witness:
  "Slug_Tail default_config
     (f150\<lparr>vin := JUndef, vehicleId := JStr ''X9'', stockNumber := JNull, id' := JNum 7\<rparr>) =
   Slug_Tail default_config f150 \<and>
   slug_js (f150\<lparr>vin := JUndef, vehicleId := JStr ''X9'', stockNumber := JNull, id' := JNum 7\<rparr>) =
   slug_js f150"
  using slug_ignores_identity_fields
    [where cfg = default_config and v = f150 and a = JUndef and b = "JStr ''X9''" and c = JNull
       and d = "JNum 7"]
  by simp

section \<open>Price and mileage text of a page\<close>



section \<open>Price ranges in the client\<close>

lemma getPriceRange_NaN: "ToNumber num p = None \<Longrightarrow> getPriceRange num p = ''over30''"
  by (simp add: getPriceRange_def js_less_def)

lemma getPriceRange_number:
  "ToNumber num p = Some n \<Longrightarrow>
   getPriceRange num p =
     (if n < 10000 then ''under10'' else if n < 20000 then ''10to20''
      else if n < 30000 then ''20to30'' else ''over30'')"
  by (simp add: getPriceRange_def js_less_def)

text \<open>
  C10, as the claim states it, fails: a price of \<open>null\<close>, of \<open>false\<close> or of the empty string
  is not a number, yet the comparison reads it as 0 and the vehicle is in the range
  \<open>under10\<close>, not in \<open>over30\<close>.
\<close>

theorem null_price_counterexample:
  "getPriceRange digits_num (price (f150\<lparr>price := JNull\<rparr>)) = ''under10'' \<and>
   getPriceRange digits_num (price (f150\<lparr>price := JBool False\<rparr>)) = ''under10'' \<and>
   getPriceRange digits_num (price (f150\<lparr>price := JStr []\<rparr>)) = ''under10'' \<and>
   priceMatch digits_num ''under10'' (f150\<lparr>price := JNull\<rparr>) \<and>
   \<not> priceMatch digits_num ''over30'' (f150\<lparr>price := JNull\<rparr>)"
  by (simp add: priceMatch_def getPriceRange_def js_less_def ToNumber_def digits_num_def
      digits_value_def)

text \<open>
  C10, amended. A vehicle whose price is absent (\<open>undefined\<close>), or is a string that
  converts to \<open>NaN\<close>, is in the price range \<open>over30\<close>: it matches the price filter
  \<open>over30\<close> and none of \<open>under10\<close>, \<open>10to20\<close>, \<open>20to30\<close>, in \<open>getPriceRange\<close> and in the
  list that \<open>filterVehicles\<close> returns. A price of \<open>null\<close>, a boolean price, and a string
  that converts to a number below 10000 (as the empty string does) put the vehicle in
  \<open>under10\<close> and keep it out of \<open>over30\<close>. Whenever the price converts to a number, the
  range is the range of that number.
\<close>

theorem price_range_of_price:
  "((price v = JUndef \<or> (\<exists>s. price v = JStr s \<and> num s = None)) \<longrightarrow>
     getPriceRange num (price v) = ''over30'' \<and>
     priceMatch num ''over30'' v \<and>
     \<not> priceMatch num ''under10'' v \<and> \<not> priceMatch num ''10to20'' v \<and>
     \<not> priceMatch num ''20to30'' v \<and>
     (v \<in> set (filterVehicles num vehicles searchQuery type ''over30'') \<longleftrightarrow>
        v \<in> set vehicles \<and> searchMatch searchQuery v \<and> typeMatch type v \<and> available v) \<and>
     v \<notin> set (filterVehicles num vehicles searchQuery type ''under10'') \<and>
     v \<notin> set (filterVehicles num vehicles searchQuery type ''10to20'') \<and>
     v \<notin> set (filterVehicles num vehicles searchQuery type ''20to30'')) \<and>
   ((price v = JNull \<or> (\<exists>b. price v = JBool b) \<or>
     (\<exists>s m. price v = JStr s \<and> num s = Some m \<and> m < 10000)) \<longrightarrow>
     getPriceRange num (price v) = ''under10'' \<and>
     priceMatch num ''under10'' v \<and> \<not> priceMatch num ''over30'' v \<and>
     (v \<in> set (filterVehicles num vehicles searchQuery type ''under10'') \<longleftrightarrow>
        v \<in> set vehicles \<and> searchMatch searchQuery v \<and> typeMatch type v \<and> available v) \<and>
     v \<notin> set (filterVehicles num vehicles searchQuery type ''over30'')) \<and>
   (ToNumber num (price v) = Some n \<longrightarrow>
     getPriceRange num (price v) =
       (if n < 10000 then ''under10'' else if n < 20000 then ''10to20''
        else if n < 30000 then ''20to30'' else ''over30''))"
proof (intro conjI impI)
  assume "price v = JUndef \<or> (\<exists>s. price v = JStr s \<and> num s = None)"
  then have "ToNumber num (price v) = None"
    by (auto simp: ToNumber_def)
  then have r: "getPriceRange num (price v) = ''over30''"
    by (rule getPriceRange_NaN)
  from r show "getPriceRange num (price v) = ''over30''" .
  from r show "priceMatch num ''over30'' v"
    and "\<not> priceMatch num ''under10'' v" and "\<not> priceMatch num ''10to20'' v"
    and "\<not> priceMatch num ''20to30'' v"
    by (simp_all add: priceMatch_def)
  from r show "v \<in> set (filterVehicles num vehicles searchQuery type ''over30'') \<longleftrightarrow>
        v \<in> set vehicles \<and> searchMatch searchQuery v \<and> typeMatch type v \<and> available v"
    by (simp add: priceMatch_def filterVehicles_def)
  from r show "v \<notin> set (filterVehicles num vehicles searchQuery type ''under10'')"
    and "v \<notin> set (filterVehicles num vehicles searchQuery type ''10to20'')"
    and "v \<notin> set (filterVehicles num vehicles searchQuery type ''20to30'')"
    by (simp_all add: priceMatch_def filterVehicles_def)
next
  assume "price v = JNull \<or> (\<exists>b. price v = JBool b) \<or>
     (\<exists>s m. price v = JStr s \<and> num s = Some m \<and> m < 10000)"
  then obtain m where "ToNumber num (price v) = Some m" "m < 10000"
    by (auto simp: ToNumber_def)
  then have r: "getPriceRange num (price v) = ''under10''"
    by (simp add: getPriceRange_number)
  from r show "getPriceRange num (price v) = ''under10''" .
  from r show "priceMatch num ''under10'' v" and "\<not> priceMatch num ''over30'' v"
    by (simp_all add: priceMatch_def)
  from r show "v \<in> set (filterVehicles num vehicles searchQuery type ''under10'') \<longleftrightarrow>
        v \<in> set vehicles \<and> searchMatch searchQuery v \<and> typeMatch type v \<and> available v"
    by (simp add: priceMatch_def filterVehicles_def)
  from r show "v \<notin> set (filterVehicles num vehicles searchQuery type ''over30'')"
    by (simp add: priceMatch_def filterVehicles_def)
next
  assume "ToNumber num (price v) = Some n"
  then show "getPriceRange num (price v) =
       (if n < 10000 then ''under10'' else if n < 20000 then ''10to20''
        else if n < 30000 then ''20to30'' else ''over30'')"
    by (rule getPriceRange_number)
qed

theorem price_range_of_price_witness:
  "digits_num ''not-a-number'' = None \<and>
   getPriceRange digits_num (price (f150\<lparr>price := JStr ''not-a-number''\<rparr>)) = ''over30'' \<and>
   getPriceRange digits_num (price (f150\<lparr>price := JUndef\<rparr>)) = ''over30'' \<and>
   f150\<lparr>price := JStr ''not-a-number''\<rparr> \<in>
     set (filterVehicles digits_num [f150, f150\<lparr>price := JStr ''not-a-number''\<rparr>] ''ford'' ''all'' ''over30'') \<and>
   f150\<lparr>price := JStr ''not-a-number''\<rparr> \<notin>
     set (filterVehicles digits_num [f150, f150\<lparr>price := JStr ''not-a-number''\<rparr>] ''ford'' ''all'' ''under10'') \<and>
   getPriceRange digits_num (price (f150\<lparr>price := JNull\<rparr>)) = ''under10'' \<and>
   f150\<lparr>price := JNull\<rparr> \<notin>
     set (filterVehicles digits_num [f150\<lparr>price := JNull\<rparr>] ''ford'' ''all'' ''over30'') \<and>
   ToNumber digits_num (price f150) = Some 28500 \<and>
   getPriceRange digits_num (price f150) = ''20to30''"
proof -
  have n: "digits_num ''not-a-number'' = None"
    by (simp add: digits_num_def is_digit_def)
  have s: "searchMatch ''ford'' (f150\<lparr>price := JStr ''not-a-number''\<rparr>)"
    by (simp add: searchMatch_def search_text_def f150_def no_fields_def toLowerCase_def
        toLower_char_def char_of_def bit_0 js_or_def show_int_def to_base.simps digit_char_def sublist_code)
  have a: "available (f150\<lparr>price := JStr ''not-a-number''\<rparr>)"
    by (simp add: available_def f150_def no_fields_def)
  have p: "ToNumber digits_num (price f150) = Some 28500"
    by (simp add: ToNumber_def f150_def no_fields_def)
  show ?thesis
    using n s a p
      price_range_of_price [where v = "f150\<lparr>price := JStr ''not-a-number''\<rparr>" and num = digits_num
        and vehicles = "[f150, f150\<lparr>price := JStr ''not-a-number''\<rparr>]" and searchQuery = "''ford''"
        and type = "''all''" and n = 0]
      price_range_of_price [where v = "f150\<lparr>price := JUndef\<rparr>" and num = digits_num
        and vehicles = "[]" and searchQuery = "''ford''" and type = "''all''" and n = 0]
      price_range_of_price [where v = "f150\<lparr>price := JNull\<rparr>" and num = digits_num
        and vehicles = "[f150\<lparr>price := JNull\<rparr>]" and searchQuery = "''ford''"
        and type = "''all''" and n = 0]
      price_range_of_price [where v = f150 and num = digits_num
        and vehicles = "[]" and searchQuery = "''ford''" and type = "''all''" and n = 28500]
    by (simp add: typeMatch_def)
qed

section \<open>Availability in the client\<close>

lemma set_insert_sorted: "set (insert_sorted cmp x ys) = insert x (set ys)"
  by (induction ys) auto

lemma js_sort_Nil: "js_sort cmp [] = []"
  by (simp add: js_sort_def)

lemma js_sort_Cons: "js_sort cmp (x # xs) = insert_sorted cmp x (js_sort cmp xs)"
  by (simp add: js_sort_def)

lemma set_js_sort: "set (js_sort cmp xs) = set xs"
  by (induction xs) (simp_all add: js_sort_Nil js_sort_Cons set_insert_sorted)

lemma set_slice0: "set (slice0 n xs) \<subseteq> set xs"
  by (auto simp: slice0_def dest: in_set_takeD)

lemma map_slice0: "map f (slice0 n xs) = slice0 n (map f xs)"
  by (simp add: slice0_def take_map)

lemma available_as_available: "available (as_available v) = available v"
  by (simp add: available_def as_available_def)

lemma as_available_fields:
  "dateAdded (as_available v) = dateAdded v" "price (as_available v) = price v"
  "type' (as_available v) = type' v" "search_text (as_available v) = search_text v"
  by (simp_all add: as_available_def search_text_def)

lemma date_of_as_available: "date_of parse (as_available v) = date_of parse v"
  by (simp add: date_of_def as_available_fields)

lemma by_date_desc_as_available:
  "by_date_desc parse (as_available a) (as_available b) = by_date_desc parse a b"
  by (simp add: by_date_desc_def date_of_as_available split: option.splits)

lemma map_insert_sorted_date:
  "map as_available (insert_sorted (by_date_desc parse) x ys) =
     insert_sorted (by_date_desc parse) (as_available x) (map as_available ys)"
  by (induction ys) (simp_all add: by_date_desc_as_available)

lemma map_js_sort_date:
  "map as_available (js_sort (by_date_desc parse) xs) =
     js_sort (by_date_desc parse) (map as_available xs)"
  by (induction xs) (simp_all add: js_sort_Nil js_sort_Cons map_insert_sorted_date)

lemma filter_available_map:
  "filter available (map as_available vs) = map as_available (filter available vs)"
  by (simp add: filter_map o_def available_as_available)

lemma getMostRecent_as_available:
  "getMostRecent parse limit (map as_available vs) = map as_available (getMostRecent parse limit vs)"
  by (cases limit)
     (simp_all add: getMostRecent_def filter_available_map map_slice0
        map_js_sort_date)

lemma filterVehicles_as_available:
  "filterVehicles num (map as_available vs) q t pr = map as_available (filterVehicles num vs q t pr)"
  by (simp add: filterVehicles_def filter_map o_def available_as_available searchMatch_def
      typeMatch_def priceMatch_def as_available_fields)

lemma getMostRecent_subset: "set (getMostRecent parse limit vs) \<subseteq> {v \<in> set vs. available v}"
proof (cases limit)
  case None
  then show ?thesis by (simp add: getMostRecent_def set_js_sort)
next
  case (Some n)
  have "set (slice0 n (js_sort (by_date_desc parse) (filter available vs)))
          \<subseteq> set (js_sort (by_date_desc parse) (filter available vs))"
    by (rule set_slice0)
  with Some show ?thesis by (auto simp: getMostRecent_def set_js_sort)
qed

lemma sold_not_available: "available v \<Longrightarrow> status v \<noteq> JStr ''sold''"
  by (auto simp: available_def)

text \<open>
  C8. A vehicle with \<open>status: "sold"\<close> is in no list that \<open>getMostRecent\<close> returns and in
  no list that \<open>filterVehicles\<close> returns, for every limit, search query, type and price
  range. A vehicle of the inventory with no \<open>status\<close> is in the unlimited most-recent
  list, and in the filtered list exactly when the three other filters match. Writing
  \<open>status: "available"\<close> into every record without a status changes neither view:
  both return the same vehicles at the same places.
\<close>

theorem sold_hidden_unset_shown:
  "(\<forall>v \<in> set (getMostRecent parse limit vehicles). status v \<noteq> JStr ''sold'') \<and>
   (\<forall>v \<in> set (filterVehicles num vehicles searchQuery type priceRange). status v \<noteq> JStr ''sold'') \<and>
   (\<forall>v \<in> set vehicles. status v = JUndef \<longrightarrow>
      v \<in> set (getMostRecent parse None vehicles) \<and>
      (v \<in> set (filterVehicles num vehicles searchQuery type priceRange) \<longleftrightarrow>
         searchMatch searchQuery v \<and> typeMatch type v \<and> priceMatch num priceRange v)) \<and>
   getMostRecent parse limit (map as_available vehicles) =
     map as_available (getMostRecent parse limit vehicles) \<and>
   filterVehicles num (map as_available vehicles) searchQuery type priceRange =
     map as_available (filterVehicles num vehicles searchQuery type priceRange)"
proof (intro conjI ballI impI)
  fix v assume "v \<in> set (getMostRecent parse limit vehicles)"
  then have "available v" using getMostRecent_subset by blast
  then show "status v \<noteq> JStr ''sold''" by (rule sold_not_available)
next
  fix v assume "v \<in> set (filterVehicles num vehicles searchQuery type priceRange)"
  then have "available v" by (simp add: filterVehicles_def)
  then show "status v \<noteq> JStr ''sold''" by (rule sold_not_available)
next
  fix v assume "v \<in> set vehicles" "status v = JUndef"
  then show "v \<in> set (getMostRecent parse None vehicles)"
    by (simp add: getMostRecent_def set_js_sort available_def)
next
  fix v assume "v \<in> set vehicles" "status v = JUndef"
  then show "v \<in> set (filterVehicles num vehicles searchQuery type priceRange) \<longleftrightarrow>
         searchMatch searchQuery v \<and> typeMatch type v \<and> priceMatch num priceRange v"
    by (simp add: filterVehicles_def available_def)
next
  show "getMostRecent parse limit (map as_available vehicles) =
     map as_available (getMostRecent parse limit vehicles)"
    by (rule getMostRecent_as_available)
next
  show "filterVehicles num (map as_available vehicles) searchQuery type priceRange =
     map as_available (filterVehicles num vehicles searchQuery type priceRange)"
    by (rule filterVehicles_as_available)
qed

theorem sold_hidden_unset_shown_witness:
  "status (f150\<lparr>status := JStr ''sold''\<rparr>) = JStr ''sold'' \<and>
   f150\<lparr>status := JStr ''sold''\<rparr> \<notin> set (getMostRecent digits_num (Some 5) [f150\<lparr>status := JStr ''sold''\<rparr>, f150]) \<and>
   f150\<lparr>status := JStr ''sold''\<rparr> \<notin>
     set (filterVehicles digits_num [f150\<lparr>status := JStr ''sold''\<rparr>, f150] [] ''all'' ''all'') \<and>
   status f150 = JUndef \<and>
   f150 \<in> set (getMostRecent digits_num None [f150\<lparr>status := JStr ''sold''\<rparr>, f150]) \<and>
   f150 \<in> set (filterVehicles digits_num [f150\<lparr>status := JStr ''sold''\<rparr>, f150] [] ''all'' ''all'')"
  using sold_hidden_unset_shown
    [where parse = digits_num and num = digits_num and limit = "Some 5"
       and vehicles = "[f150\<lparr>status := JStr ''sold''\<rparr>, f150]" and searchQuery = "[]"
       and type = "''all''" and priceRange = "''all''"]
  by (auto simp: f150_def no_fields_def searchMatch_def typeMatch_def priceMatch_def)

section \<open>The identifier\<close>

lemma vehicleId_js_cases:
  "vehicleId_js v =
     (if truthy (vehicleId v) then strip_non_alnum (js_String (vehicleId v))
      else if truthy (stockNumber v) then strip_non_alnum (js_String (stockNumber v))
      else if truthy (id' v) then strip_non_alnum (js_String (id' v))
      else CHR ''v'' # take 10 (sha1Hex (seed_js v)))"
  by (simp add: vehicleId_js_def js_or_def)

lemma Slug_Id_cases:
  "Slug_Id v =
     (if truthy (vehicleId v) then strip_non_alnum (ps_String (vehicleId v))
      else if truthy (stockNumber v) then strip_non_alnum (ps_String (stockNumber v))
      else if truthy (id' v) then strip_non_alnum (ps_String (id' v))
      else strip_non_alnum
             (CHR ''v'' # take 10 (concat (map x2 (ComputeHash (utf8 (seed_ps v)))))))"
  by (simp add: Slug_Id_def)

lemma space_not_alnum: "ps_space c \<Longrightarrow> \<not> is_alnum c"
  by (auto simp: ps_space_def is_alnum_def Let_def)

lemma strip_spaces: "\<forall>c \<in> set s. ps_space c \<Longrightarrow> strip_non_alnum s = []"
  by (simp add: strip_non_alnum_def filter_empty_conv space_not_alnum)

lemma hex_digits_alnum: "\<forall>c \<in> set ''0123456789abcdef''. is_alnum c"
  by (simp add: is_alnum_def)

lemma digit_char_alnum: "n < 16 \<Longrightarrow> is_alnum (digit_char n)"
proof -
  assume "n < 16"
  then have "digit_char n \<in> set ''0123456789abcdef''"
    unfolding digit_char_def by (intro nth_mem) simp
  with hex_digits_alnum show ?thesis by blast
qed

lemma to_base_16_alnum: "\<forall>c \<in> set (to_base 16 n). is_alnum c"
proof (induction "16::nat" n rule: to_base.induct)
  case (1 n)
  show ?case
  proof (cases "n < 16")
    case True
    then show ?thesis by (simp add: to_base.simps [of 16 n] digit_char_alnum)
  next
    case False
    then have "\<forall>c \<in> set (to_base 16 (n div 16)). is_alnum c"
      using "1.hyps" by simp
    with False show ?thesis
      by (simp add: to_base.simps [of 16 n] digit_char_alnum)
  qed
qed

lemma padStart_alnum:
  "is_alnum c \<Longrightarrow> \<forall>d \<in> set s. is_alnum d \<Longrightarrow> \<forall>d \<in> set (padStart n c s). is_alnum d"
  by (auto simp: padStart_def)

lemma zero_alnum: "is_alnum CHR ''0''"
  by (simp add: is_alnum_def)

lemma v_alnum: "is_alnum CHR ''v''"
  by (simp add: is_alnum_def)

lemma toHex_alnum: "\<forall>c \<in> set (toHex w). is_alnum c"
  unfolding toHex_def by (rule padStart_alnum [OF zero_alnum to_base_16_alnum])

lemma x2_alnum: "\<forall>c \<in> set (x2 b). is_alnum c"
  unfolding x2_def by (rule padStart_alnum [OF zero_alnum to_base_16_alnum])

lemma length_padStart: "n \<le> length (padStart n c s)"
  by (simp add: padStart_def)

lemma sha1Hex_alnum: "\<forall>c \<in> set (sha1Hex msg). is_alnum c"
  by (cases "sha1_state (utf8 msg)") (simp add: sha1Hex_def ball_Un toHex_alnum)

lemma length_sha1Hex: "40 \<le> length (sha1Hex msg)"
proof (cases "sha1_state (utf8 msg)")
  case (fields h0 h1 h2 h3 h4)
  have "\<And>w. 8 \<le> length (toHex w)"
    unfolding toHex_def by (rule length_padStart)
  from this [of h0] this [of h1] this [of h2] this [of h3] this [of h4] fields
  show ?thesis by (simp add: sha1Hex_def)
qed

lemma length_hex_bytes: "2 * length bs \<le> length (concat (map x2 bs))"
proof (induction bs)
  case Nil
  show ?case by simp
next
  case (Cons b bs)
  have "2 \<le> length (x2 b)"
    unfolding x2_def by (rule length_padStart)
  with Cons show ?case by simp
qed

lemma length_ComputeHash: "length (ComputeHash bytes) = 20"
  by (cases "sha1_state bytes") (simp add: ComputeHash_def word_bytes_def)

lemma hex_bytes_alnum: "\<forall>c \<in> set (concat (map x2 bs)). is_alnum c"
  using x2_alnum by auto

lemma length_fallback_js: "length (CHR ''v'' # take 10 (sha1Hex msg)) = 11"
  using length_sha1Hex [of msg] by simp

lemma length_fallback_ps:
  "length (strip_non_alnum (CHR ''v'' # take 10 (concat (map x2 (ComputeHash bytes))))) = 11"
proof -
  have "40 \<le> length (concat (map x2 (ComputeHash bytes)))"
    using length_hex_bytes [of "ComputeHash bytes"] by (simp add: length_ComputeHash)
  moreover have "\<forall>c \<in> set (take 10 (concat (map x2 (ComputeHash bytes)))). is_alnum c"
  proof
    fix c assume "c \<in> set (take 10 (concat (map x2 (ComputeHash bytes))))"
    then have "c \<in> set (concat (map x2 (ComputeHash bytes)))"
      by (rule in_set_takeD)
    with hex_bytes_alnum show "is_alnum c" by blast
  qed
  ultimately show ?thesis
    by (simp add: strip_non_alnum_def v_alnum)
qed

lemma strip_alnum: "\<forall>c \<in> set (strip_non_alnum s). is_alnum c"
  by (simp add: strip_non_alnum_def)

lemma strip_empty_iff: "strip_non_alnum s \<noteq> [] \<longleftrightarrow> (\<exists>c \<in> set s. is_alnum c)"
  by (simp add: strip_non_alnum_def filter_empty_conv)

lemma vehicleId_js_alnum: "\<forall>c \<in> set (vehicleId_js v). is_alnum c"
  using sha1Hex_alnum [of "seed_js v"]
  by (auto simp: vehicleId_js_cases strip_alnum v_alnum dest: in_set_takeD)

lemma Slug_Id_alnum: "\<forall>c \<in> set (Slug_Id v). is_alnum c"
  by (simp add: Slug_Id_cases strip_alnum)

lemma fallback_length:
  assumes "\<not> truthy (js_or (js_or (vehicleId v) (stockNumber v)) (id' v))"
  shows "length (vehicleId_js v) = 11" and "length (Slug_Id v) = 11"
proof -
  from assms have n: "\<not> truthy (vehicleId v)" "\<not> truthy (stockNumber v)" "\<not> truthy (id' v)"
    by (auto simp: js_or_def split: if_splits)
  from n show "length (vehicleId_js v) = 11"
    by (simp add: vehicleId_js_cases length_fallback_js del: length_Cons list.size)
  from n show "length (Slug_Id v) = 11"
    by (simp add: Slug_Id_cases length_fallback_ps)
qed

subsection \<open>Which identity field is used\<close>

text \<open>
  C5, as the claim states it, fails: with a \<open>vehicleId\<close> of one space and the stock number
  \<open>A1234\<close>, both implementations return the empty identifier, not \<open>A1234\<close>.
\<close>

theorem whitespace_vehicleId_counterexample:
  "vehicleId_js (no_fields\<lparr>vehicleId := JStr '' '', stockNumber := JStr ''A1234''\<rparr>) = [] \<and>
   Slug_Id (no_fields\<lparr>vehicleId := JStr '' '', stockNumber := JStr ''A1234''\<rparr>) = [] \<and>
   vehicleId_js (no_fields\<lparr>stockNumber := JStr ''A1234''\<rparr>) = ''A1234'' \<and>
   Slug_Id (no_fields\<lparr>stockNumber := JStr ''A1234''\<rparr>) = ''A1234''"
  by (simp add: vehicleId_js_cases Slug_Id_cases no_fields_def strip_non_alnum_def is_alnum_def)

text \<open>
  C5, amended. Both implementations try \<open>vehicleId\<close>, \<open>stockNumber\<close>, \<open>id\<close> in that
  order and take the first value that is true (a non-empty string, a number other than 0);
  nothing is stripped before that test. With none of them the identifier comes from the
  fallback seed. A \<open>vehicleId\<close> made of white space only is a true value: it is taken, and
  the identifier is the empty string.
\<close>

theorem identity_field_priority:
  "vehicleId_js v =
     (if truthy (vehicleId v) then strip_non_alnum (js_String (vehicleId v))
      else if truthy (stockNumber v) then strip_non_alnum (js_String (stockNumber v))
      else if truthy (id' v) then strip_non_alnum (js_String (id' v))
      else CHR ''v'' # take 10 (sha1Hex (seed_js v))) \<and>
   Slug_Id v =
     (if truthy (vehicleId v) then strip_non_alnum (ps_String (vehicleId v))
      else if truthy (stockNumber v) then strip_non_alnum (ps_String (stockNumber v))
      else if truthy (id' v) then strip_non_alnum (ps_String (id' v))
      else strip_non_alnum
             (CHR ''v'' # take 10 (concat (map x2 (ComputeHash (utf8 (seed_ps v))))))) \<and>
   (s \<noteq> [] \<and> (\<forall>c \<in> set s. ps_space c) \<longrightarrow>
      truthy (JStr s) \<and>
      vehicleId_js (v\<lparr>vehicleId := JStr s\<rparr>) = [] \<and> Slug_Id (v\<lparr>vehicleId := JStr s\<rparr>) = [])"
proof (intro conjI impI)
  show "vehicleId_js v =
     (if truthy (vehicleId v) then strip_non_alnum (js_String (vehicleId v))
      else if truthy (stockNumber v) then strip_non_alnum (js_String (stockNumber v))
      else if truthy (id' v) then strip_non_alnum (js_String (id' v))
      else CHR ''v'' # take 10 (sha1Hex (seed_js v)))"
    by (rule vehicleId_js_cases)
  show "Slug_Id v =
     (if truthy (vehicleId v) then strip_non_alnum (ps_String (vehicleId v))
      else if truthy (stockNumber v) then strip_non_alnum (ps_String (stockNumber v))
      else if truthy (id' v) then strip_non_alnum (ps_String (id' v))
      else strip_non_alnum
             (CHR ''v'' # take 10 (concat (map x2 (ComputeHash (utf8 (seed_ps v)))))))"
    by (rule Slug_Id_cases)
next
  assume a: "s \<noteq> [] \<and> (\<forall>c \<in> set s. ps_space c)"
  then show "truthy (JStr s)" by simp
  from a have "strip_non_alnum s = []" by (simp add: strip_spaces)
  with a show "vehicleId_js (v\<lparr>vehicleId := JStr s\<rparr>) = []"
    and "Slug_Id (v\<lparr>vehicleId := JStr s\<rparr>) = []"
    by (simp_all add: vehicleId_js_cases Slug_Id_cases)
qed

theorem identity_field_priority_witness:
  "vehicleId_js f150 = ''A1234'' \<and> Slug_Id f150 = ''A1234'' \<and>
   ps_space CHR '' '' \<and> truthy (JStr '' '') \<and>
   vehicleId_js (f150\<lparr>vehicleId := JStr '' ''\<rparr>) = [] \<and>
   Slug_Id (f150\<lparr>vehicleId := JStr '' ''\<rparr>) = []"
proof -
  have sp: "ps_space CHR '' ''"
    by (simp add: ps_space_def)
  have st: "strip_non_alnum ''A1234'' = ''A1234''"
    by (simp add: strip_non_alnum_def is_alnum_def)
  have f: "vehicleId f150 = JUndef" "stockNumber f150 = JStr ''A1234''"
    by (simp_all add: f150_def no_fields_def)
  show ?thesis
    using sp st identity_field_priority [where v = f150 and s = "'' ''"]
    by (simp add: f)
qed

subsection \<open>Whether the identifier is empty\<close>

text \<open>
  C6, as the claim states it, fails: the \<open>vehicleId\<close> \<open>---\<close> is a true value with no
  letter or digit, and both implementations return the empty identifier.
\<close>

theorem empty_identifier_counterexample:
  "truthy (vehicleId (no_fields\<lparr>vehicleId := JStr ''---''\<rparr>)) \<and>
   vehicleId_js (no_fields\<lparr>vehicleId := JStr ''---''\<rparr>) = [] \<and>
   Slug_Id (no_fields\<lparr>vehicleId := JStr ''---''\<rparr>) = []"
  by (simp add: vehicleId_js_cases Slug_Id_cases no_fields_def strip_non_alnum_def is_alnum_def)

text \<open>
  C6, amended. Every identifier consists of ASCII letters and digits only. When none of
  \<open>vehicleId\<close>, \<open>stockNumber\<close>, \<open>id\<close> is true, the identifier has 11 characters in both
  implementations. When one is true, the identifier is non-empty exactly when the text of
  the first true one has a letter or a digit.
\<close>

theorem identifier_shape:
  "(\<forall>c \<in> set (vehicleId_js v). is_alnum c) \<and> (\<forall>c \<in> set (Slug_Id v). is_alnum c) \<and>
   (\<not> truthy (js_or (js_or (vehicleId v) (stockNumber v)) (id' v)) \<longrightarrow>
      length (vehicleId_js v) = 11 \<and> length (Slug_Id v) = 11) \<and>
   (truthy (js_or (js_or (vehicleId v) (stockNumber v)) (id' v)) \<longrightarrow>
      (vehicleId_js v \<noteq> [] \<longleftrightarrow>
         (\<exists>c \<in> set (js_String (js_or (js_or (vehicleId v) (stockNumber v)) (id' v))). is_alnum c)) \<and>
      (Slug_Id v \<noteq> [] \<longleftrightarrow>
         (\<exists>c \<in> set (ps_String (js_or (js_or (vehicleId v) (stockNumber v)) (id' v))). is_alnum c)))"
proof (intro conjI impI)
  show "\<forall>c \<in> set (vehicleId_js v). is_alnum c" by (rule vehicleId_js_alnum)
  show "\<forall>c \<in> set (Slug_Id v). is_alnum c" by (rule Slug_Id_alnum)
next
  assume "\<not> truthy (js_or (js_or (vehicleId v) (stockNumber v)) (id' v))"
  then show "length (vehicleId_js v) = 11" and "length (Slug_Id v) = 11"
    by (rule fallback_length)+
next
  assume t: "truthy (js_or (js_or (vehicleId v) (stockNumber v)) (id' v))"
  then have "vehicleId_js v =
      strip_non_alnum (js_String (js_or (js_or (vehicleId v) (stockNumber v)) (id' v)))"
    by (simp add: vehicleId_js_def)
  then show "vehicleId_js v \<noteq> [] \<longleftrightarrow>
         (\<exists>c \<in> set (js_String (js_or (js_or (vehicleId v) (stockNumber v)) (id' v))). is_alnum c)"
    by (simp add: strip_empty_iff)
  from t have "Slug_Id v =
      strip_non_alnum (ps_String (js_or (js_or (vehicleId v) (stockNumber v)) (id' v)))"
    by (auto simp: Slug_Id_cases js_or_def split: if_splits)
  then show "Slug_Id v \<noteq> [] \<longleftrightarrow>
         (\<exists>c \<in> set (ps_String (js_or (js_or (vehicleId v) (stockNumber v)) (id' v))). is_alnum c)"
    by (simp add: strip_empty_iff)
qed

theorem identifier_shape_witness:
  "\<not> truthy (js_or (js_or (vehicleId no_fields) (stockNumber no_fields)) (id' no_fields)) \<and>
   length (vehicleId_js no_fields) = 11 \<and> length (Slug_Id no_fields) = 11 \<and>
   truthy (js_or (js_or (vehicleId f150) (stockNumber f150)) (id' f150)) \<and>
   vehicleId_js f150 \<noteq> [] \<and> Slug_Id f150 \<noteq> [] \<and>
   list_all is_alnum (vehicleId_js f150) \<and> list_all is_alnum (Slug_Id f150)"
proof -
  have n: "\<not> truthy (js_or (js_or (vehicleId no_fields) (stockNumber no_fields)) (id' no_fields))"
    by (simp add: no_fields_def js_or_def)
  have r: "js_or (js_or (vehicleId f150) (stockNumber f150)) (id' f150) = JStr ''A1234''"
    by (simp add: f150_def no_fields_def js_or_def)
  have a: "is_alnum CHR ''A''"
    by (simp add: is_alnum_def)
  show ?thesis
    using n a identifier_shape [of no_fields] identifier_shape [of f150]
    by (simp add: r list_all_iff)
qed

subsection \<open>The two implementations on the fallback seed\<close>

text \<open>
  C4. For the record with no field at all the client loader hashes the seed \<open>NA\<close> and
  returns \<open>v\<close> with the first ten hexadecimal digits of its SHA-1. The generator joins
  seven empty strings, hashes the six bars it gets, never reaches \<open>"NA"\<close>, and returns
  another identifier.
\<close>

theorem empty_record_identifiers:
  "seed_js no_fields = ''NA'' \<and>
   vehicleId_js no_fields = CHR ''v'' # take 10 (sha1Hex ''NA'') \<and>
   vehicleId_js no_fields = ''v3feda0153e'' \<and>
   seed_ps no_fields = ''||||||'' \<and>
   Slug_Id no_fields = ''v34bd729596'' \<and>
   Slug_Id no_fields \<noteq> CHR ''v'' # take 10 (sha1Hex ''NA'')"
  by (simp add: seed_js_no_fields seed_ps_no_fields vehicleId_js_no_fields Slug_Id_no_fields
      sha1Hex_NA)

text \<open>
  C1. For a record with a year and a make only, the client loader joins the two values
  that are there, the generator joins all seven fields with the empty ones: the seeds
  differ, and so do the identifiers.
\<close>

theorem year_make_identifiers_differ:
  "seed_js (no_fields\<lparr>year := JNum 2020, make' := JStr ''Ford''\<rparr>) = ''2020|Ford'' \<and>
   seed_ps (no_fields\<lparr>year := JNum 2020, make' := JStr ''Ford''\<rparr>) = ''2020|Ford|||||'' \<and>
   vehicleId_js (no_fields\<lparr>year := JNum 2020, make' := JStr ''Ford''\<rparr>) = ''vf4f5766f55'' \<and>
   Slug_Id (no_fields\<lparr>year := JNum 2020, make' := JStr ''Ford''\<rparr>) = ''va08a97dd58''"
proof -
  have js: "seed_js (no_fields\<lparr>year := JNum 2020, make' := JStr ''Ford''\<rparr>) = ''2020|Ford''"
    by (simp add: seed_js_def no_fields_def text_eval)
  have ps: "seed_ps (no_fields\<lparr>year := JNum 2020, make' := JStr ''Ford''\<rparr>) = ''2020|Ford|||||''"
    by (simp add: seed_ps_def no_fields_def text_eval)
  have "vehicleId_js (no_fields\<lparr>year := JNum 2020, make' := JStr ''Ford''\<rparr>) =
      CHR ''v'' # take 10 (sha1Hex ''2020|Ford'')"
    by (simp add: vehicleId_js_cases js) (simp add: no_fields_def)
  then have a: "vehicleId_js (no_fields\<lparr>year := JNum 2020, make' := JStr ''Ford''\<rparr>) = ''vf4f5766f55''"
    by (simp add: sha1Hex_2020_Ford)
  have "Slug_Id (no_fields\<lparr>year := JNum 2020, make' := JStr ''Ford''\<rparr>) =
      strip_non_alnum (CHR ''v'' # take 10 (concat (map x2 (ComputeHash (utf8 ''2020|Ford|||||'')))))"
    by (simp add: Slug_Id_cases ps) (simp add: no_fields_def)
  then have b: "Slug_Id (no_fields\<lparr>year := JNum 2020, make' := JStr ''Ford''\<rparr>) = ''va08a97dd58''"
    by (simp add: hash_2020_Ford_bars strip_non_alnum_def is_alnum_def)
  from js ps a b show ?thesis by simp
qed

section \<open>The VIN and the page path\<close>

























section \<open>The sitemap after a second run\<close>

lemma toLower_char_backslash: "toLower_char c = CHR 0x5C \<Longrightarrow> c = CHR 0x5C"
proof (rule ccontr)
  assume a: "toLower_char c = CHR 0x5C" and n: "c \<noteq> CHR 0x5C"
  let ?n = "of_char c :: nat"
  from a n have up: "(65 \<le> ?n \<and> ?n \<le> 90) \<or> (192 \<le> ?n \<and> ?n \<le> 222 \<and> ?n \<noteq> 215)"
    and ch: "char_of (?n + 32) = CHR 0x5C"
    by (auto simp: toLower_char_def Let_def split: if_splits)
  from ch have "take_bit 8 (?n + 32) = (of_char (CHR 0x5C) :: nat)"
    by (simp only: char_of_eq_iff)
  moreover from up have "?n + 32 < 2 ^ 8" by auto
  ultimately have "?n + 32 = 92"
    by (simp add: take_bit_nat_eq_self)
  with up show False by auto
qed

lemma wild_match_star_lit:
  "wild_match (Star # Lit d # ps) s \<Longrightarrow> \<exists>c \<in> set s. toLower_char c = toLower_char d"
  by (induction s) auto

lemma like_vdp_pattern_backslash: "like s vdp_pattern \<Longrightarrow> CHR 0x5C \<in> set s"
proof -
  assume "like s vdp_pattern"
  then have "wild_match (Star # Lit (CHR 0x5C) # wild_parse ''/vdp'' @ Lit (CHR 0x5C) # wild_parse ''/*'') s"
    by (simp add: like_def vdp_pattern_def)
  then obtain c where "c \<in> set s" "toLower_char c = toLower_char (CHR 0x5C)"
    using wild_match_star_lit by (metis append_Cons)
  moreover have "toLower_char (CHR 0x5C) = CHR 0x5C"
    by (simp add: toLower_char_def)
  ultimately show ?thesis
    using toLower_char_backslash by auto
qed

lemma set_hyphenate: "set (hyphenate s) \<subseteq> {c. is_alnum c} \<union> {CHR ''-''}"
  by (induction s rule: hyphenate.induct) auto

lemma set_trim_both: "set (trim_both P s) \<subseteq> set s"
proof -
  have "set (dropWhile P (rev (dropWhile P s))) \<subseteq> set (rev (dropWhile P s))"
    by (rule set_dropWhileD [THEN subsetI]) 
  also have "\<dots> \<subseteq> set s"
    by (auto dest: set_dropWhileD)
  finally show ?thesis by (simp add: trim_both_def)
qed

lemma set_join: "set (join sep xs) \<subseteq> set sep \<union> \<Union> (set ` set xs)"
  by (induction sep xs rule: join.induct) auto

lemma Slug_Part_chars: "Slug_Part p = Some s \<Longrightarrow> set s \<subseteq> {c. is_alnum c} \<union> {CHR ''-''}"
proof -
  assume "Slug_Part p = Some s"
  then have "s = trim_both (\<lambda>c. c = CHR ''-'') (hyphenate (trim_both ps_space (ps_String p)))"
    by (auto simp: Slug_Part_def split: if_splits)
  then show ?thesis
    using set_trim_both set_hyphenate by blast
qed

lemma map_filter_Slug_Part_chars:
  "\<forall>s \<in> set (List.map_filter Slug_Part ps). set s \<subseteq> {c. is_alnum c} \<union> {CHR ''-''}"
proof
  fix s assume "s \<in> set (List.map_filter Slug_Part ps)"
  then obtain p where "Slug_Part p = Some s"
    by (induction ps) (auto split: option.splits)
  then show "set s \<subseteq> {c. is_alnum c} \<union> {CHR ''-''}"
    by (rule Slug_Part_chars)
qed

lemma Slug_Tail_chars: "set (Slug_Tail cfg v) \<subseteq> {c. is_alnum c} \<union> {CHR ''-''}"
proof -
  let ?parts = "List.map_filter Slug_Part
       [JStr ''Used'', year v, make' v, model v, trim v,
        JStr (''for-sale-in-'' @ City cfg @ ''-'' @ State cfg @ ''-'' @ Zip cfg)]"
  have "set (join ''-'' ?parts) \<subseteq> set ''-'' \<union> \<Union> (set ` set ?parts)"
    by (rule set_join)
  with map_filter_Slug_Part_chars [of "[JStr ''Used'', year v, make' v, model v, trim v,
        JStr (''for-sale-in-'' @ City cfg @ ''-'' @ State cfg @ ''-'' @ Zip cfg)]"]
  show ?thesis
    unfolding Slug_Tail_def by fastforce
qed

lemma set_TrimEnd: "set (TrimEnd c s) \<subseteq> set s"
  by (auto simp: TrimEnd_def dest: set_dropWhileD)

lemma backslash_not_alnum: "\<not> is_alnum (CHR 0x5C)"
  by (simp add: is_alnum_def)

lemma pageUrl_no_backslash:
  assumes "CHR 0x5C \<notin> set (SiteUrl cfg)"
  shows "CHR 0x5C \<notin> set (pageUrl cfg v)"
proof -
  have "CHR 0x5C \<notin> set (TrimEnd CHR ''/'' (SiteUrl cfg))"
    using assms set_TrimEnd by fastforce
  moreover have "CHR 0x5C \<notin> set (Slug_Id v)"
    using Slug_Id_alnum backslash_not_alnum by blast
  moreover have "CHR 0x5C \<notin> set (Slug_Tail cfg v)"
    using Slug_Tail_chars [of cfg v] backslash_not_alnum by auto
  ultimately show ?thesis
    by (simp add: pageUrl_def relDir_def)
qed

lemma new_node_not_old: "CHR 0x5C \<notin> set u \<Longrightarrow> \<not> is_old_vdp (new_node today u)"
  by (auto simp: is_old_vdp_def new_node_def dest: like_vdp_pattern_backslash)


text \<open>
  C2. The pattern of \<open>Update-Sitemap\<close> asks for a backslash before each slash. A page URL
  has none (unless the site URL brings one), so no entry of an earlier run matches and none
  is removed: the second run on the same vehicles leaves the entries of the first run and
  appends one more entry for every vehicle. The entry count after run 2 is the count
  after run 1 plus the number of vehicles, not the count after run 1.
\<close>

theorem second_run_adds_entries:
  assumes "CHR 0x5C \<notin> set (SiteUrl cfg)"
  shows "entry_count (run_sitemap cfg today vehicles (run_sitemap cfg today vehicles (Doc urls))) =
         entry_count (run_sitemap cfg today vehicles (Doc urls)) + length vehicles"
proof -
  let ?new = "map (new_node today) (map (pageUrl cfg) vehicles)"
  have "\<not> is_old_vdp (new_node today (pageUrl cfg v))" for v
    by (rule new_node_not_old [OF pageUrl_no_backslash [OF assms]])
  then have "\<forall>n \<in> set ?new. \<not> is_old_vdp n"
    by auto
  then have "filter (\<lambda>u. \<not> is_old_vdp u) ?new = ?new"
    by (simp only: filter_True)
  then show ?thesis
    by (simp add: run_sitemap_def Update_Sitemap_def)
qed

theorem second_run_adds_entries_witness:
  "CHR 0x5C \<notin> set (SiteUrl default_config) \<and>
   entry_count (run_sitemap default_config ''2026-11-03'' [f150] (Doc [])) = 1 \<and>
   entry_count (run_sitemap default_config ''2026-11-03'' [f150]
     (run_sitemap default_config ''2026-11-03'' [f150] (Doc []))) = 2"
proof -
  have s: "CHR 0x5C \<notin> set (SiteUrl default_config)"
    by (simp add: default_config_def)
  have 1: "entry_count (run_sitemap default_config ''2026-11-03'' [f150] (Doc [])) = 1"
    by (simp add: run_sitemap_def Update_Sitemap_def)
  from s 1 second_run_adds_entries [OF s, of "''2026-11-03''" "[f150]" "[]"]
  show ?thesis by simp
qed

end
